theory Spec2Isabelle
  imports Complex_Main
begin

section \<open>Python strings\<close>

text \<open>
  A Python \<^verbatim>\<open>str\<close> is modelled as a \<^typ>\<open>string\<close> whose characters are the code
  points below 256. The character classes below are the ones Python 3 uses on
  that range: \<^verbatim>\<open>str.isspace\<close> (the characters \<^verbatim>\<open>str.strip()\<close> removes), the
  class \<^verbatim>\<open>\w\<close> of the \<^verbatim>\<open>re\<close> module for \<^verbatim>\<open>str\<close> patterns, and \<^verbatim>\<open>str.lower\<close>.
\<close>

definition ord :: "char \<Rightarrow> nat" where
  "ord c = of_char c"

definition is_space :: "char \<Rightarrow> bool" where
  "is_space c = (let n = ord c in
     (9 \<le> n \<and> n \<le> 13) \<or> (28 \<le> n \<and> n \<le> 32) \<or> n = 133 \<or> n = 160)"

definition is_word_char :: "char \<Rightarrow> bool" where
  "is_word_char c = (let n = ord c in
     (48 \<le> n \<and> n \<le> 57) \<or> (65 \<le> n \<and> n \<le> 90) \<or> n = 95 \<or> (97 \<le> n \<and> n \<le> 122)
     \<or> n = 170 \<or> n = 178 \<or> n = 179 \<or> n = 181 \<or> n = 185 \<or> n = 186
     \<or> (188 \<le> n \<and> n \<le> 190) \<or> (192 \<le> n \<and> n \<le> 214)
     \<or> (216 \<le> n \<and> n \<le> 246) \<or> (248 \<le> n \<and> n \<le> 255))"

definition lower_char :: "char \<Rightarrow> char" where
  "lower_char c = (let n = ord c in
     if (65 \<le> n \<and> n \<le> 90) \<or> (192 \<le> n \<and> n \<le> 222 \<and> n \<noteq> 215)
     then char_of (n + 32) else c)"

text \<open>\<^verbatim>\<open>s.lower()\<close>\<close>

definition lower :: "string \<Rightarrow> string" where
  "lower s = map lower_char s"

text \<open>\<^verbatim>\<open>s.strip()\<close>\<close>

definition strip :: "string \<Rightarrow> string" where
  "strip s = rev (dropWhile is_space (rev (dropWhile is_space s)))"

text \<open>\<^verbatim>\<open>sep.join(xs)\<close>\<close>

fun join :: "string \<Rightarrow> string list \<Rightarrow> string" where
  "join sep [] = []"
| "join sep [x] = x"
| "join sep (x # y # ys) = x @ sep @ join sep (y # ys)"

text \<open>\<^verbatim>\<open>s.split(c)\<close> for a separator of one character: every occurrence splits,
  empty pieces are kept, and the result is never empty.\<close>

fun split :: "char \<Rightarrow> string \<Rightarrow> string list" where
  "split c [] = [[]]"
| "split c (x # xs) =
     (if x = c then [] # split c xs
      else (case split c xs of [] \<Rightarrow> [[x]] | p # ps \<Rightarrow> (x # p) # ps))"

text \<open>\<^verbatim>\<open>s.startswith(p)\<close> and \<^verbatim>\<open>p in s\<close>\<close>

fun startswith :: "string \<Rightarrow> string \<Rightarrow> bool" where
  "startswith s [] = True"
| "startswith [] (p # ps) = False"
| "startswith (x # xs) (p # ps) = (x = p \<and> startswith xs ps)"

fun contains :: "string \<Rightarrow> string \<Rightarrow> bool" where
  "contains [] p = (p = [])"
| "contains (x # xs) p = (startswith (x # xs) p \<or> contains xs p)"

definition nl :: string where
  "nl = [CHR 0x0A]"

section \<open>Regular expressions of the \<^verbatim>\<open>re\<close> module\<close>

text \<open>
  The fragment the guard's patterns use: literal text, alternation, sequence
  and the word boundary \<^verbatim>\<open>\b\<close>. Groups only delimit alternations, so they leave
  no trace in the syntax tree. Every search of the guard passes
  \<^verbatim>\<open>re.IGNORECASE\<close>, so a literal matches up to case.
\<close>

datatype regex =
  Lit string
  | WordB
  | Cat regex regex
  | Alt regex regex

fun alts :: "regex list \<Rightarrow> regex" where
  "alts [] = Lit []"
| "alts [r] = r"
| "alts (r # rs) = Alt r (alts rs)"

fun cats :: "regex list \<Rightarrow> regex" where
  "cats [] = Lit []"
| "cats [r] = r"
| "cats (r # rs) = Cat r (cats rs)"

text \<open>\<^verbatim>\<open>\b\<close> holds at position \<open>i\<close> when exactly one of the characters before
  and after \<open>i\<close> is a word character; outside the string counts as non-word.\<close>

definition word_boundary :: "string \<Rightarrow> nat \<Rightarrow> bool" where
  "word_boundary s i =
     ((0 < i \<and> i \<le> length s \<and> is_word_char (s ! (i - 1)))
      \<noteq> (i < length s \<and> is_word_char (s ! i)))"

text \<open>All positions where a match of the expression that starts at \<open>i\<close> can end.\<close>

fun ends :: "regex \<Rightarrow> string \<Rightarrow> nat \<Rightarrow> nat list" where
  "ends (Lit w) s i =
     (if i + length w \<le> length s \<and> lower (take (length w) (drop i s)) = lower w
      then [i + length w] else [])"
| "ends WordB s i = (if word_boundary s i then [i] else [])"
| "ends (Cat a b) s i = concat (map (ends b s) (ends a s i))"
| "ends (Alt a b) s i = ends a s i @ ends b s i"

text \<open>\<^verbatim>\<open>re.search(pattern, s, re.IGNORECASE)\<close> as a truth value.\<close>

definition re_search :: "regex \<Rightarrow> string \<Rightarrow> bool" where
  "re_search r s = list_ex (\<lambda>i. ends r s i \<noteq> []) [0 ..< Suc (length s)]"

section \<open>Input validation (\<^verbatim>\<open>guardrails/input_validator.py\<close>)\<close>

definition SQL_KEYWORDS :: "string list" where
  "SQL_KEYWORDS = [''SELECT'', ''INSERT'', ''UPDATE'', ''DELETE'', ''DROP'', ''CREATE'',
     ''ALTER'', ''EXEC'', ''EXECUTE'']"

definition SQL_TOKENS :: "string list" where
  "SQL_TOKENS = ['';'', ''--'', ''/*'', ''*/'', ''xp_'', ''sp_'']"

definition SQL_INJECTION_PATTERNS :: "regex list" where
  "SQL_INJECTION_PATTERNS =
     [Cat WordB (Cat (alts (map Lit SQL_KEYWORDS)) WordB),
      alts (map Lit SQL_TOKENS)]"

definition PROMPT_INJECTION_PATTERNS :: "regex list" where
  "PROMPT_INJECTION_PATTERNS =
     [cats [Lit ''ignore '', alts [Lit ''previous'', Lit ''above'', Lit ''all''], Lit '' '',
            alts [Lit ''instructions'', Lit ''rules'']],
      Lit ''you are now'',
      Lit ''system prompt'',
      Lit ''disregard'']"

definition MAX_QUERY_LENGTH :: nat where
  "MAX_QUERY_LENGTH = 1000"

record validation =
  valid :: bool
  reason :: string

text \<open>
  \<^verbatim>\<open>InputValidator.validate_query\<close>. The loop over \<^verbatim>\<open>PII_PATTERNS\<close> only writes a
  log line and never returns, so it has no branch here.
\<close>

definition validate_query :: "string \<Rightarrow> validation" where
  "validate_query q =
     (if length q > MAX_QUERY_LENGTH then
        \<lparr>valid = False, reason = ''Query too long (max 1000 characters)''\<rparr>
      else if strip q = [] then
        \<lparr>valid = False, reason = ''Query cannot be empty''\<rparr>
      else if list_ex (\<lambda>p. re_search p q) SQL_INJECTION_PATTERNS then
        \<lparr>valid = False, reason = ''Query contains potentially malicious SQL patterns''\<rparr>
      else if list_ex (\<lambda>p. re_search p q) PROMPT_INJECTION_PATTERNS then
        \<lparr>valid = False, reason = ''Query contains suspicious prompt manipulation patterns''\<rparr>
      else \<lparr>valid = True, reason = ''''\<rparr>)"

section \<open>Python floats and exceptions\<close>

text \<open>
  A \<^verbatim>\<open>float\<close> is the real number it denotes, or one of the three special
  values. Comparisons follow IEEE 754 as Python does: every comparison with
  \<^verbatim>\<open>nan\<close> is false.
\<close>

datatype pyfloat = Finite real | PosInf | NegInf | NaN

text \<open>\<^verbatim>\<open>a >= b\<close>\<close>

fun fge :: "pyfloat \<Rightarrow> pyfloat \<Rightarrow> bool" where
  "fge NaN b = False"
| "fge a NaN = False"
| "fge PosInf b = True"
| "fge a NegInf = True"
| "fge (Finite x) (Finite y) = (y \<le> x)"
| "fge NegInf b = False"
| "fge a PosInf = False"

text \<open>\<^verbatim>\<open>a < b\<close>\<close>

definition flt :: "pyfloat \<Rightarrow> pyfloat \<Rightarrow> bool" where
  "flt a b = (a \<noteq> NaN \<and> b \<noteq> NaN \<and> \<not> fge a b)"

text \<open>\<^verbatim>\<open>min(a, b)\<close> and \<^verbatim>\<open>max(a, b)\<close> keep the first argument unless the second
  is strictly smaller (larger).\<close>

definition py_min :: "pyfloat \<Rightarrow> pyfloat \<Rightarrow> pyfloat" where
  "py_min a b = (if flt b a then b else a)"

definition py_max :: "pyfloat \<Rightarrow> pyfloat \<Rightarrow> pyfloat" where
  "py_max a b = (if flt a b then b else a)"

text \<open>The value of the literal \<^verbatim>\<open>0.7\<close>: the double nearest to seven tenths.\<close>

definition float_0_7 :: real where
  "float_0_7 = 3152519739159347 / 4503599627370496"

text \<open>
  Exceptions are values. The class records which \<^verbatim>\<open>except\<close> clause catches the
  exception (\<open>OtherError\<close> is any other subclass of \<^verbatim>\<open>Exception\<close>), the string
  is what \<^verbatim>\<open>str(e)\<close> returns.
\<close>

datatype exn_class = ValueError | AttributeError | IndexError | KeyError | OtherError

datatype exn = Exn exn_class string

fun class_of :: "exn \<Rightarrow> exn_class" where
  "class_of (Exn c m) = c"

fun str_exn :: "exn \<Rightarrow> string" where
  "str_exn (Exn c m) = m"

section \<open>Data of the pipeline\<close>

text \<open>A \<^verbatim>\<open>langchain\<close> document: its text and the two metadata entries the
  pipeline reads (absent entries are \<open>None\<close>; the page is kept as printed).\<close>

record document =
  page_content :: string
  source_file :: "string option"
  page :: "string option"

record search_result =
  title :: string
  link :: string
  snippet :: string

text \<open>The source attributions the tools build (the dictionaries tagged
  \<^verbatim>\<open>'document'\<close>, \<^verbatim>\<open>'llm_knowledge'\<close> and \<^verbatim>\<open>'internet_search'\<close>).\<close>

datatype source =
  Document_source string string pyfloat string
  | Llm_knowledge string string
  | Internet_search string string string

datatype node =
  Input_validation | Query_analysis | Router | Rag | Llm | Search
  | Relevance_check | Response_synthesis | Hallucination_check

text \<open>What a run does to the outside world, in order: the nodes the graph
  enters and the calls to the three backends.\<close>

datatype event =
  Enter node
  | Llm_call string
  | Vector_search string
  | Web_search string

text \<open>\<^verbatim>\<open>config.py\<close>: the entries the pipeline reads.\<close>

record config =
  top_k :: nat
  similarity_threshold :: real
  relevance_threshold :: real
  hallucination_threshold :: real

text \<open>
  The collaborators outside the repository. Each backend may answer
  differently on every call, so its answer depends on everything that happened
  before (the events so far) as well as on its argument:
  \<^item> \<open>llm_invoke\<close>: \<^verbatim>\<open>self.llm.invoke(prompt).content\<close>, or the exception raised;
  \<^item> \<open>chroma_search\<close>: \<^verbatim>\<open>Chroma.similarity_search_with_score(query, k)\<close>;
  \<^item> \<open>chroma_count\<close>: \<^verbatim>\<open>collection.count()\<close>;
  \<^item> \<open>serper_results\<close>: the \<^verbatim>\<open>'organic'\<close> entries of
    \<^verbatim>\<open>GoogleSerperAPIWrapper.results(query)\<close>, missing fields already empty;
  \<^item> \<open>py_float\<close>: the builtin \<^verbatim>\<open>float(s)\<close>, \<open>None\<close> where it raises \<^verbatim>\<open>ValueError\<close>;
  \<^item> \<open>time_start\<close>, \<open>time_end\<close>: the two readings of \<^verbatim>\<open>time.time()\<close>.
\<close>

record env =
  cfg :: config
  llm_invoke :: "event list \<Rightarrow> string \<Rightarrow> exn + string"
  chroma_search :: "event list \<Rightarrow> string \<Rightarrow> nat \<Rightarrow> exn + (document \<times> pyfloat) list"
  chroma_count :: "exn + int"
  serper_results :: "event list \<Rightarrow> string \<Rightarrow> exn + search_result list"
  py_float :: "string \<Rightarrow> pyfloat option"
  time_start :: real
  time_end :: real

text \<open>\<^verbatim>\<open>agents/state.py\<close>: \<^verbatim>\<open>AgentState\<close>, every key present as \<^verbatim>\<open>invoke\<close> builds it.\<close>

record agent_state =
  query :: string
  is_valid :: bool
  validation_reason :: string
  query_intent :: "string option"
  confidence :: pyfloat
  selected_tool :: "string option"
  retrieved_documents :: "document list"
  relevance_score :: pyfloat
  is_relevant :: bool
  search_results :: "search_result list"
  response :: string
  source_type :: string
  sources :: "source list"
  is_grounded :: bool
  grounding_confidence :: pyfloat
  attempted_tools :: "string option list"
  needs_fallback :: bool
  processing_time :: real
  error :: "string option"
  doc_count :: int

section \<open>Vector store and tools\<close>

text \<open>\<^verbatim>\<open>ChromaManager.similarity_search_with_score\<close> with \<^verbatim>\<open>k = None\<close>, as the
  retrieval tool calls it.\<close>

definition similarity_search_with_score ::
  "env \<Rightarrow> event list \<Rightarrow> string \<Rightarrow> (document \<times> pyfloat) list" where
  "similarity_search_with_score e tr q =
     (let k = top_k (cfg e) in
      case chroma_search e tr q k of
        Inl ex \<Rightarrow> []
      | Inr results \<Rightarrow>
          (let threshold = similarity_threshold (cfg e)
           in filter (\<lambda>(doc, score). fge score (Finite threshold)) results))"

text \<open>\<^verbatim>\<open>ChromaManager.get_collection_count\<close>\<close>

definition get_collection_count :: "env \<Rightarrow> int" where
  "get_collection_count e = (case chroma_count e of Inl ex \<Rightarrow> 0 | Inr n \<Rightarrow> n)"

record rag_result =
  rag_documents :: "document list"
  rag_scores :: "pyfloat list"
  rag_sources :: "source list"
  rag_success :: bool

definition meta_get :: "string option \<Rightarrow> string \<Rightarrow> string" where
  "meta_get v d = (case v of None \<Rightarrow> d | Some x \<Rightarrow> x)"

text \<open>\<^verbatim>\<open>AgentTools.rag_tool\<close>. Nothing inside its \<^verbatim>\<open>try\<close> raises, since the
  search catches its own failures.\<close>

definition rag_tool :: "env \<Rightarrow> event list \<Rightarrow> string \<Rightarrow> rag_result" where
  "rag_tool e tr q =
     (let results = similarity_search_with_score e tr q;
          documents = map fst results;
          scores = map snd results;
          srcs = map (\<lambda>(doc, score).
                   Document_source (meta_get (source_file doc) ''Unknown'')
                     (meta_get (page doc) ''N/A'') score (take 200 (page_content doc))) results
      in \<lparr>rag_documents = documents, rag_scores = scores, rag_sources = srcs,
          rag_success = (length documents > 0)\<rparr>)"

definition llm_tool_prompt :: "string \<Rightarrow> string" where
  "llm_tool_prompt q = join nl
      [''You are a helpful AI assistant. Answer the following question using your knowledge. Be concise and accurate.'',
       [],
       ''Question: '' @ q,
       [],
       ''Answer:'']"

record llm_result =
  llm_response :: string
  llm_sources :: "source list"
  llm_success :: bool
  llm_error :: "string option"

text \<open>\<^verbatim>\<open>AgentTools.llm_tool\<close>\<close>

definition llm_tool :: "env \<Rightarrow> event list \<Rightarrow> string \<Rightarrow> llm_result" where
  "llm_tool e tr q =
     (case llm_invoke e tr (llm_tool_prompt q) of
        Inr content \<Rightarrow>
          \<lparr>llm_response = content,
           llm_sources = [Llm_knowledge ''Groq LLM'' ''Response based on model training data''],
           llm_success = True, llm_error = None\<rparr>
      | Inl ex \<Rightarrow>
          \<lparr>llm_response = [], llm_sources = [], llm_success = False,
           llm_error = Some (str_exn ex)\<rparr>)"

text \<open>\<^verbatim>\<open>SerperClient.search_with_metadata\<close>\<close>

definition search_with_metadata :: "env \<Rightarrow> event list \<Rightarrow> string \<Rightarrow> search_result list" where
  "search_with_metadata e tr q =
     (case serper_results e tr q of
        Inl ex \<Rightarrow> []
      | Inr organic_results \<Rightarrow> take 5 organic_results)"

record search_tool_result =
  st_results :: "search_result list"
  st_context :: string
  st_sources :: "source list"
  st_success :: bool

text \<open>\<^verbatim>\<open>AgentTools.search_tool\<close>\<close>

definition search_tool :: "env \<Rightarrow> event list \<Rightarrow> string \<Rightarrow> search_tool_result" where
  "search_tool e tr q =
     (let results = search_with_metadata e tr q;
          srcs = map (\<lambda>r. Internet_search (title r) (link r) (snippet r)) results;
          combined_context = join (nl @ nl) (map (\<lambda>r. title r @ '': '' @ snippet r) results)
      in \<lparr>st_results = results, st_context = combined_context, st_sources = srcs,
          st_success = (length results > 0)\<rparr>)"

section \<open>Guardrails\<close>

definition relevance_prompt :: "string \<Rightarrow> string \<Rightarrow> string" where
  "relevance_prompt q context = join nl
      [''You are a relevance evaluator. Determine if the provided context can answer the user's question.'',
       [],
       ''Question: '' @ q,
       [],
       ''Context:'',
       context,
       [],
       ''Rate the relevance on a scale of 0.0 to 1.0 where:'',
       ''- 1.0 = Context directly answers the question'',
       ''- 0.5 = Context is somewhat related but doesn't fully answer'',
       ''- 0.0 = Context is completely unrelated'',
       [],
       ''Respond with ONLY a number between 0.0 and 1.0, nothing else.'']"

text \<open>The results of the two gates. Their \<^verbatim>\<open>'reason'\<close> entry is a message that
  the callers only log, so the records leave it out.\<close>

record relevance =
  score :: pyfloat
  relevant :: bool

record grounding =
  grounded :: bool
  grounding_conf :: pyfloat

text \<open>\<^verbatim>\<open>except (ValueError, AttributeError)\<close>\<close>

definition caught_by_gate :: "exn \<Rightarrow> bool" where
  "caught_by_gate ex = (class_of ex = ValueError \<or> class_of ex = AttributeError)"

text \<open>
  \<^verbatim>\<open>RelevanceScorer.score_relevance\<close>. The result comes with the events after
  the call; an exception that the \<^verbatim>\<open>except\<close> clause does not name leaves the
  function.
\<close>

definition score_relevance ::
  "env \<Rightarrow> event list \<Rightarrow> string \<Rightarrow> document list \<Rightarrow> exn + relevance \<times> event list" where
  "score_relevance e tr q documents =
     (if documents = [] then Inr (\<lparr>score = Finite 0, relevant = False\<rparr>, tr)
      else
        (let context = join (nl @ nl) (map page_content (take 3 documents));
             prompt = relevance_prompt q context;
             tr' = tr @ [Llm_call prompt];
             dflt = \<lparr>score = Finite 0.5, relevant = True\<rparr>
         in case llm_invoke e tr prompt of
              Inl ex \<Rightarrow> (if caught_by_gate ex then Inr (dflt, tr') else Inl ex)
            | Inr content \<Rightarrow>
                (case py_float e (strip content) of
                   None \<Rightarrow> Inr (dflt, tr')
                 | Some x \<Rightarrow>
                     (let sc = py_max (Finite 0) (py_min (Finite 1) x)
                      in Inr (\<lparr>score = sc,
                               relevant = fge sc (Finite (relevance_threshold (cfg e)))\<rparr>, tr')))))"

definition grounding_prompt :: "string \<Rightarrow> string \<Rightarrow> string \<Rightarrow> string" where
  "grounding_prompt q context resp = join nl
      [''You are a factual grounding evaluator. Determine if the response is fully supported by the provided context.'',
       [],
       ''Question: '' @ q,
       [],
       ''Context:'',
       context,
       [],
       ''Response to evaluate:'',
       resp,
       [],
       ''Evaluate if EVERY claim in the response can be directly found in or reasonably inferred from the context.'',
       [],
       ''Rate grounding on a scale of 0.0 to 1.0 where:'',
       ''- 1.0 = All claims are fully supported by context'',
       ''- 0.5 = Some claims are supported, some are not'',
       ''- 0.0 = Response contains information not in context (hallucination)'',
       [],
       ''Respond with ONLY a number between 0.0 and 1.0, nothing else.'']"

text \<open>\<^verbatim>\<open>HallucinationDetector.check_grounding\<close>\<close>

definition check_grounding ::
  "env \<Rightarrow> event list \<Rightarrow> string \<Rightarrow> string \<Rightarrow> string option \<Rightarrow> string
     \<Rightarrow> exn + grounding \<times> event list" where
  "check_grounding e tr q resp context src_type =
     (if src_type \<in> set [''llm'', ''search''] then
        Inr (\<lparr>grounded = True, grounding_conf = Finite 1\<rparr>, tr)
      else
        (case context of
           None \<Rightarrow> Inr (\<lparr>grounded = False, grounding_conf = Finite 0\<rparr>, tr)
         | Some ctx \<Rightarrow>
             if ctx = [] then Inr (\<lparr>grounded = False, grounding_conf = Finite 0\<rparr>, tr)
             else
               (let prompt = grounding_prompt q ctx resp;
                    tr' = tr @ [Llm_call prompt];
                    dflt = \<lparr>grounded = True, grounding_conf = Finite 0.5\<rparr>
                in case llm_invoke e tr prompt of
                     Inl ex \<Rightarrow> (if caught_by_gate ex then Inr (dflt, tr') else Inl ex)
                   | Inr content \<Rightarrow>
                       (case py_float e (strip content) of
                          None \<Rightarrow> Inr (dflt, tr')
                        | Some x \<Rightarrow>
                            (let c = py_max (Finite 0) (py_min (Finite 1) x)
                             in Inr (\<lparr>grounded = fge c (Finite (hallucination_threshold (cfg e))),
                                      grounding_conf = c\<rparr>, tr'))))))"

section \<open>Nodes (\<^verbatim>\<open>agents/nodes.py\<close>)\<close>

text \<open>\<^verbatim>\<open>AgentNodes.input_validation_node\<close>\<close>

definition input_validation_node :: "agent_state \<Rightarrow> agent_state" where
  "input_validation_node s =
     (let validation_result = validate_query (query s)
      in s\<lparr>is_valid := valid validation_result,
            validation_reason := reason validation_result\<rparr>)"

definition analysis_prompt :: "string \<Rightarrow> string" where
  \<open>analysis_prompt q = join nl
      [''Analyze the following query and determine the best source to answer it.'',
       [],
       ''Query: '' @ q,
       [],
       ''Classify into ONE of these categories:'',
       ''- "document": Query is asking about specific people, names, documents, files, uploaded content, or specific details that likely require document lookup'',
       ''- "knowledge": Query is asking general knowledge questions (definitions, concepts, how-to) that can be answered from training data'',
       ''- "search": Query is asking about current events, today's news, recent information, or real-time data'',
       [],
       ''Important: If the query mentions specific names, people, or asks "tell me about [specific thing]", classify as "document" since this likely requires uploaded files.'',
       [],
       ''Also rate your confidence from 0.0 to 1.0.'',
       [],
       ''Respond in this exact format:'',
       ''Category: [document/knowledge/search]'',
       ''Confidence: [0.0-1.0]'']\<close>

text \<open>\<^verbatim>\<open>[l for l in content.split('\n') if key in l][0]\<close>\<close>

definition first_line_with :: "string \<Rightarrow> string \<Rightarrow> exn + string" where
  "first_line_with key content =
     (case filter (\<lambda>l. contains l key) (split (CHR 0x0A) content) of
        [] \<Rightarrow> Inl (Exn IndexError ''list index out of range'')
      | l # ls \<Rightarrow> Inr l)"

text \<open>\<^verbatim>\<open>line.split(':')[1]\<close>\<close>

definition after_colon :: "string \<Rightarrow> exn + string" where
  "after_colon line =
     (case split (CHR '':'') line of
        a # b # rest \<Rightarrow> Inr b
      | _ \<Rightarrow> Inl (Exn IndexError ''list index out of range''))"

text \<open>\<^verbatim>\<open>float(s.strip())\<close>\<close>

definition float_of :: "env \<Rightarrow> string \<Rightarrow> exn + pyfloat" where
  "float_of e s =
     (case py_float e (strip s) of
        None \<Rightarrow> Inl (Exn ValueError ''could not convert string to float'')
      | Some x \<Rightarrow> Inr x)"

text \<open>The statements of the \<^verbatim>\<open>try\<close> block of \<^verbatim>\<open>query_analysis_node\<close> between the
  model call and the two assignments to the state, in their order.\<close>

definition parse_analysis :: "env \<Rightarrow> string \<Rightarrow> exn + string \<times> pyfloat" where
  "parse_analysis e content =
     (case first_line_with ''Category:'' content of
        Inl ex \<Rightarrow> Inl ex
      | Inr category_line \<Rightarrow>
     (case first_line_with ''Confidence:'' content of
        Inl ex \<Rightarrow> Inl ex
      | Inr confidence_line \<Rightarrow>
     (case after_colon category_line of
        Inl ex \<Rightarrow> Inl ex
      | Inr c \<Rightarrow>
     (let intent = lower (strip c) in
      case after_colon confidence_line of
        Inl ex \<Rightarrow> Inl ex
      | Inr f \<Rightarrow>
     (case float_of e f of
        Inl ex \<Rightarrow> Inl ex
      | Inr conf \<Rightarrow> Inr (intent, conf))))))"

text \<open>\<^verbatim>\<open>AgentNodes.query_analysis_node\<close>: \<^verbatim>\<open>except Exception\<close> catches every
  failure of the block.\<close>

definition query_analysis_node :: "env \<Rightarrow> agent_state \<times> event list \<Rightarrow> agent_state \<times> event list" where
  "query_analysis_node e st =
     (let s = fst st; tr = snd st;
          prompt = analysis_prompt (query s);
          tr' = tr @ [Llm_call prompt];
          outcome = (case llm_invoke e tr prompt of
                       Inl ex \<Rightarrow> Inl ex
                     | Inr content \<Rightarrow> parse_analysis e content)
      in case outcome of
           Inr (intent, conf) \<Rightarrow> (s\<lparr>query_intent := Some intent, confidence := conf\<rparr>, tr')
         | Inl ex \<Rightarrow> (s\<lparr>query_intent := Some ''document'', confidence := Finite 0.5\<rparr>, tr'))"

text \<open>
  \<^verbatim>\<open>AgentNodes.router_node\<close>. All keys are present, so no default of
  \<^verbatim>\<open>state.get\<close> applies, and the import inside its \<^verbatim>\<open>try\<close> is the one
  \<^verbatim>\<open>graph.py\<close> has already done, so the \<^verbatim>\<open>except\<close> branch is never taken. Where
  no branch assigns, \<^verbatim>\<open>selected_tool\<close> keeps its value.
\<close>

definition router_node :: "agent_state \<Rightarrow> agent_state" where
  "router_node s =
     (let intent = query_intent s;
          conf = confidence s;
          dc = doc_count s;
          s1 = (if dc > 0 \<and> intent \<noteq> Some ''search'' then s\<lparr>selected_tool := Some ''rag''\<rparr>
                else if fge conf (Finite float_0_7) then
                  (if intent = Some ''document'' then s\<lparr>selected_tool := Some ''rag''\<rparr>
                   else if intent = Some ''knowledge'' then s\<lparr>selected_tool := Some ''llm''\<rparr>
                   else if intent = Some ''search'' then s\<lparr>selected_tool := Some ''search''\<rparr>
                   else s)
                else s\<lparr>selected_tool := Some ''rag''\<rparr>)
      in s1\<lparr>attempted_tools := attempted_tools s1 @ [selected_tool s1]\<rparr>)"

text \<open>\<^verbatim>\<open>AgentNodes.rag_node\<close>\<close>

definition rag_node :: "env \<Rightarrow> agent_state \<times> event list \<Rightarrow> agent_state \<times> event list" where
  "rag_node e st =
     (let s = fst st; tr = snd st;
          result = rag_tool e tr (query s);
          s1 = s\<lparr>retrieved_documents := rag_documents result, sources := rag_sources result\<rparr>
      in ((if \<not> rag_success result then s1\<lparr>needs_fallback := True\<rparr> else s1),
          tr @ [Vector_search (query s)]))"

text \<open>\<^verbatim>\<open>AgentNodes.llm_node\<close>\<close>

definition llm_node :: "env \<Rightarrow> agent_state \<times> event list \<Rightarrow> agent_state \<times> event list" where
  "llm_node e st =
     (let s = fst st; tr = snd st;
          result = llm_tool e tr (query s)
      in ((if llm_success result
           then s\<lparr>response := llm_response result, sources := llm_sources result,
                  source_type := ''llm''\<rparr>
           else s\<lparr>needs_fallback := True\<rparr>),
          tr @ [Llm_call (llm_tool_prompt (query s))]))"

definition search_prompt :: "string \<Rightarrow> string \<Rightarrow> string" where
  "search_prompt q context = join nl
      [''Based on the following search results, answer the user's question.'',
       [],
       ''Question: '' @ q,
       [],
       ''Search Results:'',
       context,
       [],
       ''Provide a concise, accurate answer:'']"

text \<open>\<^verbatim>\<open>AgentNodes.search_node\<close>\<close>

definition search_node :: "env \<Rightarrow> agent_state \<times> event list \<Rightarrow> agent_state \<times> event list" where
  "search_node e st =
     (let s = fst st; tr = snd st;
          result = search_tool e tr (query s);
          tr1 = tr @ [Web_search (query s)]
      in if st_success result then
           (let s1 = s\<lparr>search_results := st_results result, sources := st_sources result\<rparr>;
                prompt = search_prompt (query s1) (st_context result)
            in case llm_invoke e tr1 prompt of
                 Inr content \<Rightarrow>
                   (s1\<lparr>response := content, source_type := ''search''\<rparr>, tr1 @ [Llm_call prompt])
               | Inl ex \<Rightarrow> (s1\<lparr>needs_fallback := True\<rparr>, tr1 @ [Llm_call prompt]))
         else (s\<lparr>needs_fallback := True\<rparr>, tr1))"

text \<open>\<^verbatim>\<open>AgentNodes.relevance_check_node\<close>\<close>

definition relevance_check_node ::
  "env \<Rightarrow> agent_state \<times> event list \<Rightarrow> exn + agent_state \<times> event list" where
  "relevance_check_node e st =
     (let s = fst st; tr = snd st;
          documents = retrieved_documents s
      in if documents = [] then
           Inr (s\<lparr>is_relevant := False, relevance_score := Finite 0, needs_fallback := True\<rparr>, tr)
         else
           (case score_relevance e tr (query s) documents of
              Inl ex \<Rightarrow> Inl ex
            | Inr (result, tr') \<Rightarrow>
                (let s1 = s\<lparr>is_relevant := relevant result, relevance_score := score result\<rparr>
                 in Inr ((if \<not> relevant result then s1\<lparr>needs_fallback := True\<rparr> else s1), tr'))))"

definition synthesis_prompt :: "string \<Rightarrow> string \<Rightarrow> string" where
  "synthesis_prompt q context = join nl
      [''Based on the following document excerpts, answer the user's question. Be specific and cite which document you're referencing.'',
       [],
       ''Question: '' @ q,
       [],
       ''Documents:'',
       context,
       [],
       ''Provide a clear, accurate answer based ONLY on the information in these documents:'']"

definition excerpt :: "document \<Rightarrow> string" where
  "excerpt doc = ''['' @ meta_get (source_file doc) ''Unknown'' @ '' - Page ''
       @ meta_get (page doc) ''N/A'' @ '']'' @ nl @ page_content doc"

text \<open>\<^verbatim>\<open>AgentNodes.response_synthesis_node\<close>\<close>

definition response_synthesis_node ::
  "env \<Rightarrow> agent_state \<times> event list \<Rightarrow> agent_state \<times> event list" where
  "response_synthesis_node e st =
     (let s = fst st; tr = snd st;
          documents = retrieved_documents s
      in if documents = [] then
           (s\<lparr>response := ''I couldn't find relevant information in the uploaded documents.'',
              source_type := ''none''\<rparr>, tr)
         else
           (let context = join (nl @ nl) (map excerpt (take 3 documents));
                prompt = synthesis_prompt (query s) context
            in case llm_invoke e tr prompt of
                 Inr content \<Rightarrow>
                   (s\<lparr>response := content, source_type := ''rag''\<rparr>, tr @ [Llm_call prompt])
               | Inl ex \<Rightarrow>
                   (s\<lparr>response := ''Error generating response.'', error := Some (str_exn ex)\<rparr>,
                    tr @ [Llm_call prompt])))"

definition unverified_note :: string where
  "unverified_note = nl @ nl @ ''Note: This response may contain unverified information.''"

text \<open>\<^verbatim>\<open>AgentNodes.hallucination_check_node\<close>\<close>

definition hallucination_check_node ::
  "env \<Rightarrow> agent_state \<times> event list \<Rightarrow> exn + agent_state \<times> event list" where
  "hallucination_check_node e st =
     (let s = fst st; tr = snd st;
          context = (if source_type s = ''rag''
                     then Some (join (nl @ nl) (map page_content (take 3 (retrieved_documents s))))
                     else None)
      in case check_grounding e tr (query s) (response s) context (source_type s) of
           Inl ex \<Rightarrow> Inl ex
         | Inr (result, tr') \<Rightarrow>
             (let s1 = s\<lparr>is_grounded := grounded result,
                         grounding_confidence := grounding_conf result\<rparr>
              in Inr ((if \<not> grounded result
                       then s1\<lparr>response := response s1 @ unverified_note\<rparr> else s1), tr')))"

section \<open>The graph (\<^verbatim>\<open>agents/graph.py\<close>)\<close>

fun run_node :: "env \<Rightarrow> node \<Rightarrow> agent_state \<times> event list \<Rightarrow> exn + agent_state \<times> event list" where
  "run_node e Input_validation st = Inr (input_validation_node (fst st), snd st)"
| "run_node e Query_analysis st = Inr (query_analysis_node e st)"
| "run_node e Router st = Inr (router_node (fst st), snd st)"
| "run_node e Rag st = Inr (rag_node e st)"
| "run_node e Llm st = Inr (llm_node e st)"
| "run_node e Search st = Inr (search_node e st)"
| "run_node e Relevance_check st = relevance_check_node e st"
| "run_node e Response_synthesis st = Inr (response_synthesis_node e st)"
| "run_node e Hallucination_check st = hallucination_check_node e st"

text \<open>
  The edges of \<^verbatim>\<open>_build_graph\<close>; \<open>None\<close> is \<^verbatim>\<open>END\<close>. A conditional edge looks
  the value of its function up in its mapping, so a value outside the mapping
  raises \<^verbatim>\<open>KeyError\<close> as a dictionary lookup does.
\<close>

definition repr_key :: "string option \<Rightarrow> string" where
  "repr_key k = (case k of None \<Rightarrow> ''None'' | Some x \<Rightarrow> [CHR 0x27] @ x @ [CHR 0x27])"

fun next_node :: "node \<Rightarrow> agent_state \<Rightarrow> exn + node option" where
  "next_node Input_validation s = Inr (if \<not> is_valid s then None else Some Query_analysis)"
| "next_node Query_analysis s = Inr (Some Router)"
| "next_node Router s =
     (if selected_tool s = Some ''rag'' then Inr (Some Rag)
      else if selected_tool s = Some ''llm'' then Inr (Some Llm)
      else if selected_tool s = Some ''search'' then Inr (Some Search)
      else Inl (Exn KeyError (repr_key (selected_tool s))))"
| "next_node Rag s = Inr (Some Relevance_check)"
| "next_node Relevance_check s = Inr (Some (if is_relevant s then Response_synthesis else Llm))"
| "next_node Response_synthesis s = Inr (Some Hallucination_check)"
| "next_node Llm s = Inr (Some Hallucination_check)"
| "next_node Search s = Inr (Some Hallucination_check)"
| "next_node Hallucination_check s = Inr None"

text \<open>The number of edges that can still follow a node: the graph has no cycle.\<close>

fun rank :: "node \<Rightarrow> nat" where
  "rank Input_validation = 6"
| "rank Query_analysis = 5"
| "rank Router = 4"
| "rank Rag = 3"
| "rank Relevance_check = 2"
| "rank Response_synthesis = 1"
| "rank Llm = 1"
| "rank Search = 1"
| "rank Hallucination_check = 0"

text \<open>
  Running the compiled graph from a node: enter it, run it, follow its edge.

  The list under \<^verbatim>\<open>attempted_tools\<close> is one object: \<^verbatim>\<open>invoke\<close> creates it in
  the initial state, the graph hands it on from state to state, and the router
  appends to it in place. Every other entry of the state is replaced by
  assignment, never changed in place. So the caller's initial state sees the
  appends of a run, also of a run that fails: a failed run returns the content
  of that list at the point of failure together with the exception. The two
  nodes that can raise do not touch the list, so for them it is the list of
  the state they were given; for an edge it is the list after its node.
\<close>

function run_from ::
  "env \<Rightarrow> node \<Rightarrow> agent_state \<times> event list
     \<Rightarrow> (exn \<times> string option list) + agent_state \<times> event list" where
  "run_from e n st =
     (case run_node e n (fst st, snd st @ [Enter n]) of
        Inl ex \<Rightarrow> Inl (ex, attempted_tools (fst st))
      | Inr st' \<Rightarrow>
          (case next_node n (fst st') of
             Inl ex \<Rightarrow> Inl (ex, attempted_tools (fst st'))
           | Inr None \<Rightarrow> Inr st'
           | Inr (Some m) \<Rightarrow> run_from e m st'))"
  by pat_completeness auto
termination
proof (relation "measure (\<lambda>(e, n, st). rank n)")
  show "wf (measure (\<lambda>(e, n, st). rank n))" by simp
next
  fix e :: env and n :: node and st st' :: "agent_state \<times> event list" and x m
  assume "next_node n (fst st') = Inr x" and "x = Some m"
  then have "rank m < rank n"
    by (cases n) (auto split: if_splits)
  then show "((e, m, st'), (e, n, st)) \<in> measure (\<lambda>(e, n, st). rank n)" by simp
qed

text \<open>\<^verbatim>\<open>self.graph.invoke(initial_state)\<close>: the entry point is the validation node.\<close>

definition graph_invoke ::
  "env \<Rightarrow> agent_state \<Rightarrow> (exn \<times> string option list) + agent_state \<times> event list" where
  "graph_invoke e s = run_from e Input_validation (s, [])"

definition initial_state :: "env \<Rightarrow> string \<Rightarrow> agent_state" where
  "initial_state e q =
     \<lparr>query = q, is_valid = True, validation_reason = [], query_intent = None,
      confidence = Finite 0, selected_tool = None, retrieved_documents = [],
      relevance_score = Finite 0, is_relevant = False, search_results = [],
      response = [], source_type = [], sources = [], is_grounded = True,
      grounding_confidence = Finite 1, attempted_tools = [], needs_fallback = False,
      processing_time = 0, error = None, doc_count = get_collection_count e\<rparr>"

text \<open>
  \<^verbatim>\<open>AgentGraph.invoke\<close>. The result is a sum as for every function that can
  raise: \<open>Inl\<close> would be an exception that reaches the caller. The handler
  writes into the initial state it still holds; its \<^verbatim>\<open>attempted_tools\<close> list is
  the shared one, so it holds what the failed run appended. The elapsed time
  is the difference of the two clock readings (its rounding is not modelled).
\<close>

definition invoke :: "env \<Rightarrow> string \<Rightarrow> exn + agent_state" where
  "invoke e q =
     (let start_time = time_start e;
          init = initial_state e q
      in case graph_invoke e init of
           Inr (result, tr) \<Rightarrow> Inr (result\<lparr>processing_time := time_end e - start_time\<rparr>)
         | Inl (ex, appended) \<Rightarrow>
             Inr (init\<lparr>attempted_tools := appended,
                       error := Some (str_exn ex),
                       response := ''An error occurred while processing your query.'',
                       processing_time := time_end e - start_time\<rparr>))"

section \<open>Notions used in the statements\<close>

definition is_ascii_letter :: "char \<Rightarrow> bool" where
  "is_ascii_letter c = (let n = ord c in (65 \<le> n \<and> n \<le> 90) \<or> (97 \<le> n \<and> n \<le> 122))"

text \<open>The verdict of the guard on a query that matches an SQL pattern.\<close>

definition sql_rejection :: validation where
  "sql_rejection =
     \<lparr>valid = False, reason = ''Query contains potentially malicious SQL patterns''\<rparr>"

text \<open>What the relevance gate gets back from the model for its prompt, and
  whether that is a failure the gate absorbs: an exception of a class its
  \<^verbatim>\<open>except\<close> clause names, or a text that \<^verbatim>\<open>float\<close> rejects.\<close>

definition relevance_reply :: "env \<Rightarrow> event list \<Rightarrow> string \<Rightarrow> document list \<Rightarrow> exn + string" where
  "relevance_reply e tr q documents =
     llm_invoke e tr (relevance_prompt q (join (nl @ nl) (map page_content (take 3 documents))))"

definition absorbed_failure :: "env \<Rightarrow> exn + string \<Rightarrow> bool" where
  "absorbed_failure e reply =
     (case reply of
        Inl ex \<Rightarrow> caught_by_gate ex
      | Inr content \<Rightarrow> py_float e (strip content) = None)"

text \<open>The lines of a model reply, and the three ways the reply of the intent
  classifier can fail to parse.\<close>

definition lines_with :: "string \<Rightarrow> string \<Rightarrow> string list" where
  "lines_with key content = filter (\<lambda>l. contains l key) (split (CHR 0x0A) content)"

definition unparsable :: "env \<Rightarrow> string \<Rightarrow> bool" where
  "unparsable e content =
     (lines_with ''Category:'' content = []
      \<or> (case lines_with ''Confidence:'' content of
            [] \<Rightarrow> True
          | l # ls \<Rightarrow>
              (case after_colon l of
                 Inl ex \<Rightarrow> True
               | Inr f \<Rightarrow> py_float e (strip f) = None)))"

text \<open>Whether the classifier's call fails: the model raises, or its reply
  does not parse.\<close>

definition classifier_fails :: "env \<Rightarrow> exn + string \<Rightarrow> bool" where
  "classifier_fails e reply =
     (case reply of Inl ex \<Rightarrow> True | Inr content \<Rightarrow> unparsable e content)"

subsection \<open>Concrete collaborators\<close>

text \<open>The thresholds \<^verbatim>\<open>config.py\<close> falls back to when the environment sets none
  (\<open>float_0_6\<close> is the double nearest to six tenths).\<close>

definition float_0_6 :: real where
  "float_0_6 = 5404319552844595 / 9007199254740992"

definition default_cfg :: config where
  "default_cfg = \<lparr>top_k = 5, similarity_threshold = float_0_7,
     relevance_threshold = float_0_6, hallucination_threshold = float_0_7\<rparr>"

definition doc_a :: document where
  "doc_a = \<lparr>page_content = ''Paris is the capital of France.'',
     source_file = Some ''notes.txt'', page = None\<rparr>"

definition doc_b :: document where
  "doc_b = \<lparr>page_content = ''Bread needs flour.'', source_file = None, page = Some ''2''\<rparr>"

text \<open>The model is unreachable; the index holds two passages, one of them
  below the similarity threshold.\<close>

definition env_down :: env where
  "env_down = \<lparr>cfg = default_cfg,
     llm_invoke = (\<lambda>tr p. Inl (Exn OtherError ''connection refused'')),
     chroma_search = (\<lambda>tr q k. Inr [(doc_a, Finite 0.875), (doc_b, Finite 0.25)]),
     chroma_count = Inr 2,
     serper_results = (\<lambda>tr q. Inr []),
     py_float = (\<lambda>s. None),
     time_start = 10, time_end = 12\<rparr>"

text \<open>The same with an empty index.\<close>

definition env_empty :: env where
  "env_empty = env_down\<lparr>chroma_search := (\<lambda>tr q k. Inr []), chroma_count := Inr 0\<rparr>"

text \<open>An empty index and a model that answers every prompt with a category
  outside the three labels, at high confidence.\<close>

definition env_unclear :: env where
  "env_unclear = env_empty\<lparr>
     llm_invoke := (\<lambda>tr p. Inr (''Category: unclear'' @ nl @ ''Confidence: 0.75'')),
     py_float := (\<lambda>s. if s = ''0.75'' then Some (Finite 0.75) else None)\<rparr>"

text \<open>A model whose reply to every prompt is not a number.\<close>

definition env_chatty :: env where
  "env_chatty = env_down\<lparr>llm_invoke := (\<lambda>tr p. Inr ''It depends.'')\<rparr>"

text \<open>The state the router receives from the classifier under \<open>env_unclear\<close>.\<close>

definition unclear_state :: agent_state where
  "unclear_state = (initial_state env_unclear ''hi'')
     \<lparr>query_intent := Some ''unclear'', confidence := Finite 0.75\<rparr>"

text \<open>A state in which retrieval has found one passage.\<close>

definition retrieved_state :: agent_state where
  "retrieved_state = (initial_state env_chatty ''hi'')\<lparr>retrieved_documents := [doc_a]\<rparr>"

section \<open>Characters and patterns\<close>

lemma ord_lt_256: "ord c < 256"
  by (simp add: ord_def)

lemma ord_char_of: "n < 256 \<Longrightarrow> ord (char_of n) = n"
  by (simp add: ord_def)

lemma ord_inject: "ord c = ord d \<Longrightarrow> c = d"
  by (simp add: ord_def)

lemma ord_lower_char:
  "ord (lower_char c) =
     (if (65 \<le> ord c \<and> ord c \<le> 90) \<or> (192 \<le> ord c \<and> ord c \<le> 222 \<and> ord c \<noteq> 215)
      then ord c + 32 else ord c)"
  using ord_lt_256 [of c] by (simp add: lower_char_def Let_def ord_char_of)

lemma lower_char_letter:
  assumes "is_ascii_letter d" "lower_char c = lower_char d"
  shows "is_ascii_letter c"
proof -
  have "ord (lower_char c) = ord (lower_char d)" using assms(2) by simp
  then show ?thesis
    using assms(1) by (auto simp: ord_lower_char is_ascii_letter_def Let_def split: if_splits)
qed

lemma letter_is_word: "is_ascii_letter c \<Longrightarrow> is_word_char c"
  by (auto simp: is_ascii_letter_def is_word_char_def Let_def)

lemma letter_not_space: "is_ascii_letter c \<Longrightarrow> \<not> is_space c"
  by (auto simp: is_ascii_letter_def is_space_def Let_def)

lemma lower_letters:
  assumes "lower w = lower k" "\<forall>c \<in> set k. is_ascii_letter c"
  shows "\<forall>c \<in> set w. is_ascii_letter c"
proof
  fix c assume "c \<in> set w"
  then obtain i where i: "i < length w" "w ! i = c" by (auto simp: in_set_conv_nth)
  have len: "length w = length k" using assms(1) unfolding lower_def by (metis length_map)
  have "lower_char (w ! i) = lower_char (k ! i)"
    using assms(1) i(1) len unfolding lower_def by (metis nth_map)
  moreover have "is_ascii_letter (k ! i)" using assms(2) i(1) len by simp
  ultimately show "is_ascii_letter c" using i(2) lower_char_letter by blast
qed

lemma strip_nonempty:
  assumes "c \<in> set q" "\<not> is_space c"
  shows "strip q \<noteq> []"
proof -
  have "c \<notin> set (takeWhile is_space q)"
    using assms(2) by (auto dest: set_takeWhileD)
  moreover have "set q = set (takeWhile is_space q) \<union> set (dropWhile is_space q)"
    by (metis set_append takeWhile_dropWhile_id)
  ultimately have "c \<in> set (rev (dropWhile is_space q))"
    using assms(1) by simp
  then have "dropWhile is_space (rev (dropWhile is_space q)) \<noteq> []"
    using assms(2) by (metis dropWhile_eq_Nil_conv)
  then show ?thesis by (simp add: strip_def)
qed

lemma ends_Lit_at:
  assumes "lower w = lower k"
  shows "ends (Lit k) (pre @ w @ post) (length pre) = [length pre + length k]"
proof -
  have len: "length w = length k" using assms unfolding lower_def by (metis length_map)
  show ?thesis using assms len by simp
qed

lemma set_ends_alts: "r \<in> set rs \<Longrightarrow> set (ends r s i) \<subseteq> set (ends (alts rs) s i)"
  by (induction rs rule: alts.induct) auto

lemma word_boundary_start:
  assumes "w \<noteq> []" "is_word_char (hd w)" "pre = [] \<or> \<not> is_word_char (last pre)"
  shows "word_boundary (pre @ w @ post) (length pre)"
proof -
  have a: "(pre @ w @ post) ! length pre = hd w"
    using assms(1) by (simp add: nth_append hd_conv_nth)
  have b: "pre \<noteq> [] \<Longrightarrow> (pre @ w @ post) ! (length pre - 1) = last pre"
    by (simp add: nth_append last_conv_nth)
  show ?thesis
    unfolding word_boundary_def using assms a b by (cases "pre = []") auto
qed

lemma word_boundary_end:
  assumes "w \<noteq> []" "is_word_char (last w)" "post = [] \<or> \<not> is_word_char (hd post)"
  shows "word_boundary (pre @ w @ post) (length pre + length w)"
proof -
  have "length pre + length w - 1 = length pre + (length w - 1)"
    using assms(1) by (cases w) auto
  then have "(pre @ w @ post) ! (length pre + length w - 1) = (w @ post) ! (length w - 1)"
    by (simp only: nth_append_length_plus)
  then have a: "(pre @ w @ post) ! (length pre + length w - 1) = last w"
    using assms(1) by (simp add: nth_append last_conv_nth)
  have b: "post \<noteq> [] \<Longrightarrow> (pre @ w @ post) ! (length pre + length w) = hd post"
    by (simp add: nth_append hd_conv_nth)
  show ?thesis
    unfolding word_boundary_def using assms a b by (cases "post = []") auto
qed

lemma re_search_at: "i \<le> length s \<Longrightarrow> ends r s i \<noteq> [] \<Longrightarrow> re_search r s"
  unfolding re_search_def list_ex_iff by (intro bexI [of _ i]) auto

lemma keywords_letters: "k \<in> set SQL_KEYWORDS \<Longrightarrow> k \<noteq> [] \<and> (\<forall>c \<in> set k. is_ascii_letter c)"
  by (auto simp: SQL_KEYWORDS_def is_ascii_letter_def ord_def)

lemma tokens_not_space: "t \<in> set SQL_TOKENS \<Longrightarrow> t \<noteq> [] \<and> (\<forall>c \<in> set t. \<not> is_space c)"
  by (auto simp: SQL_TOKENS_def is_space_def ord_def)

lemma keyword_search:
  assumes k: "k \<in> set SQL_KEYWORDS" and w: "lower w = lower k"
    and pre: "pre = [] \<or> \<not> is_word_char (last pre)"
    and post: "post = [] \<or> \<not> is_word_char (hd post)"
  shows "re_search (Cat WordB (Cat (alts (map Lit SQL_KEYWORDS)) WordB)) (pre @ w @ post)"
proof -
  let ?s = "pre @ w @ post" and ?i = "length pre"
  have len: "length w = length k" using w unfolding lower_def by (metis length_map)
  have kl: "k \<noteq> []" "\<forall>c \<in> set k. is_ascii_letter c" using keywords_letters [OF k] by auto
  have wl: "w \<noteq> []" "\<forall>c \<in> set w. is_ascii_letter c"
    using len kl(1) lower_letters [OF w kl(2)] by auto
  have b1: "word_boundary ?s ?i"
    using word_boundary_start [OF wl(1) _ pre] wl letter_is_word by auto
  have b2: "word_boundary ?s (?i + length k)"
    using word_boundary_end [OF wl(1) _ post, of pre] wl letter_is_word len by auto
  have "?i + length k \<in> set (ends (Lit k) ?s ?i)" using ends_Lit_at [OF w] by simp
  then have "?i + length k \<in> set (ends (alts (map Lit SQL_KEYWORDS)) ?s ?i)"
    using set_ends_alts [of "Lit k" "map Lit SQL_KEYWORDS" ?s ?i] k by auto
  then have "?i + length k \<in> set (ends (Cat (alts (map Lit SQL_KEYWORDS)) WordB) ?s ?i)"
    using b2 by auto
  then have "ends (Cat WordB (Cat (alts (map Lit SQL_KEYWORDS)) WordB)) ?s ?i \<noteq> []"
    using b1 by auto
  then show ?thesis by (rule re_search_at [rotated]) simp
qed

lemma token_search:
  assumes t: "t \<in> set SQL_TOKENS"
  shows "re_search (alts (map Lit SQL_TOKENS)) (pre @ t @ post)"
proof -
  let ?s = "pre @ t @ post" and ?i = "length pre"
  have "?i + length t \<in> set (ends (Lit t) ?s ?i)" using ends_Lit_at [of t t] by simp
  then have "?i + length t \<in> set (ends (alts (map Lit SQL_TOKENS)) ?s ?i)"
    using set_ends_alts [of "Lit t" "map Lit SQL_TOKENS" ?s ?i] t by auto
  then have "ends (alts (map Lit SQL_TOKENS)) ?s ?i \<noteq> []" by auto
  then show ?thesis by (rule re_search_at [rotated]) simp
qed

lemma sql_rejected:
  assumes "length q \<le> MAX_QUERY_LENGTH" "c \<in> set q" "\<not> is_space c"
    and "re_search (Cat WordB (Cat (alts (map Lit SQL_KEYWORDS)) WordB)) q
         \<or> re_search (alts (map Lit SQL_TOKENS)) q"
  shows "validate_query q = sql_rejection"
  using assms strip_nonempty [OF assms(2,3)]
  by (auto simp: validate_query_def SQL_INJECTION_PATTERNS_def sql_rejection_def)

lemma keyword_rejected:
  assumes "length (pre @ w @ post) \<le> MAX_QUERY_LENGTH"
    and "k \<in> set SQL_KEYWORDS" "lower w = lower k"
    and "pre = [] \<or> \<not> is_word_char (last pre)" "post = [] \<or> \<not> is_word_char (hd post)"
  shows "validate_query (pre @ w @ post) = sql_rejection"
proof -
  have len: "length w = length k" using assms(3) unfolding lower_def by (metis length_map)
  have kl: "k \<noteq> []" "\<forall>c \<in> set k. is_ascii_letter c" using keywords_letters [OF assms(2)] by auto
  have wl: "w \<noteq> []" "\<forall>c \<in> set w. is_ascii_letter c"
    using len kl(1) lower_letters [OF assms(3) kl(2)] by auto
  then have "hd w \<in> set (pre @ w @ post)" "\<not> is_space (hd w)"
    using letter_not_space by auto
  then show ?thesis
    using sql_rejected [OF assms(1)] keyword_search [OF assms(2-5)] by blast
qed

lemma token_rejected:
  assumes "length (pre @ t @ post) \<le> MAX_QUERY_LENGTH" "t \<in> set SQL_TOKENS"
  shows "validate_query (pre @ t @ post) = sql_rejection"
proof -
  have "hd t \<in> set (pre @ t @ post)" "\<not> is_space (hd t)"
    using tokens_not_space [OF assms(2)] by auto
  then show ?thesis
    using sql_rejected [OF assms(1)] token_search [OF assms(2)] by blast
qed

lemma select_rejected: "validate_query ''SELECT * FROM users'' = sql_rejection"
  using keyword_rejected [of "[]" "''SELECT''" "'' * FROM users''" "''SELECT''"]
  by (simp add: MAX_QUERY_LENGTH_def SQL_KEYWORDS_def is_word_char_def ord_def)

section \<open>Steps of the graph\<close>

declare run_from.simps [simp del]

lemma valid_hi: "validate_query ''hi'' = \<lparr>valid = True, reason = []\<rparr>"
  by code_simp

lemma run_from_invalid:
  assumes "\<not> valid (validate_query (query s))"
  shows "run_from e Input_validation (s, tr) = Inr (input_validation_node s, tr @ [Enter Input_validation])"
  using assms by (simp add: run_from.simps [of e Input_validation] input_validation_node_def Let_def)

lemma run_from_valid:
  assumes "valid (validate_query (query s))"
  shows "run_from e Input_validation (s, tr) =
         run_from e Query_analysis (input_validation_node s, tr @ [Enter Input_validation])"
  using assms by (simp add: run_from.simps [of e Input_validation] input_validation_node_def Let_def)

lemma run_from_analysis:
  "run_from e Query_analysis st =
   run_from e Router (query_analysis_node e (fst st, snd st @ [Enter Query_analysis]))"
  by (simp add: run_from.simps [of e Query_analysis])

lemma run_from_router:
  "run_from e Router st =
     (case next_node Router (router_node (fst st)) of
        Inl ex \<Rightarrow> Inl (ex, attempted_tools (router_node (fst st)))
      | Inr None \<Rightarrow> Inr (router_node (fst st), snd st @ [Enter Router])
      | Inr (Some m) \<Rightarrow> run_from e m (router_node (fst st), snd st @ [Enter Router]))"
  by (simp add: run_from.simps [of e Router])

lemma run_from_rag:
  "run_from e Rag st = run_from e Relevance_check (rag_node e (fst st, snd st @ [Enter Rag]))"
  by (simp add: run_from.simps [of e Rag])

lemma run_from_relevance:
  "run_from e Relevance_check st =
     (case relevance_check_node e (fst st, snd st @ [Enter Relevance_check]) of
        Inl ex \<Rightarrow> Inl (ex, attempted_tools (fst st))
      | Inr st' \<Rightarrow> run_from e (if is_relevant (fst st') then Response_synthesis else Llm) st')"
  by (simp add: run_from.simps [of e Relevance_check] split: sum.splits)

lemma run_from_llm:
  "run_from e Llm st = run_from e Hallucination_check (llm_node e (fst st, snd st @ [Enter Llm]))"
  by (simp add: run_from.simps [of e Llm])

lemma run_from_hallucination:
  "run_from e Hallucination_check st =
     (case hallucination_check_node e (fst st, snd st @ [Enter Hallucination_check]) of
        Inl ex \<Rightarrow> Inl (ex, attempted_tools (fst st))
      | Inr st' \<Rightarrow> Inr st')"
  by (simp add: run_from.simps [of e Hallucination_check] split: sum.splits)

lemma relevance_check_empty:
  assumes "retrieved_documents s = []"
  shows "relevance_check_node e (s, tr) =
         Inr (s\<lparr>is_relevant := False, relevance_score := Finite 0, needs_fallback := True\<rparr>, tr)"
  using assms by (simp add: relevance_check_node_def)

lemma rag_node_empty:
  assumes "similarity_search_with_score e tr (query s) = []"
  shows "rag_node e (s, tr) =
         (s\<lparr>retrieved_documents := [], sources := [], needs_fallback := True\<rparr>,
          tr @ [Vector_search (query s)])"
  using assms by (simp add: rag_node_def rag_tool_def Let_def)

lemma check_grounding_short:
  assumes "src = ''llm'' \<or> src = ''search''"
  shows "check_grounding e tr q r ctx src = Inr (\<lparr>grounded = True, grounding_conf = Finite 1\<rparr>, tr)"
  using assms by (auto simp: check_grounding_def)

lemma hallucination_check_llm:
  assumes "source_type s = ''llm''"
  shows "hallucination_check_node e (s, tr) =
         Inr (s\<lparr>is_grounded := True, grounding_confidence := Finite 1\<rparr>, tr)"
  using assms by (simp add: hallucination_check_node_def check_grounding_short Let_def)

lemma hallucination_check_blank:
  assumes "source_type s = []"
  shows "hallucination_check_node e (s, tr) =
         Inr (s\<lparr>is_grounded := False, grounding_confidence := Finite 0,
                response := response s @ unverified_note\<rparr>, tr)"
  using assms by (simp add: hallucination_check_node_def check_grounding_def Let_def)

lemma llm_node_ok:
  assumes "llm_invoke e tr (llm_tool_prompt (query s)) = Inr content"
  shows "llm_node e (s, tr) =
         (s\<lparr>response := content,
            sources := [Llm_knowledge ''Groq LLM'' ''Response based on model training data''],
            source_type := ''llm''\<rparr>,
          tr @ [Llm_call (llm_tool_prompt (query s))])"
  using assms by (simp add: llm_node_def llm_tool_def Let_def)

lemma llm_node_fail:
  assumes "llm_invoke e tr (llm_tool_prompt (query s)) = Inl ex"
  shows "llm_node e (s, tr) =
         (s\<lparr>needs_fallback := True\<rparr>, tr @ [Llm_call (llm_tool_prompt (query s))])"
  using assms by (simp add: llm_node_def llm_tool_def Let_def)

lemma query_analysis_fail:
  assumes "classifier_fails e (llm_invoke e tr (analysis_prompt (query s)))"
  shows "query_analysis_node e (s, tr) =
         (s\<lparr>query_intent := Some ''document'', confidence := Finite 0.5\<rparr>,
          tr @ [Llm_call (analysis_prompt (query s))])"
proof (cases "llm_invoke e tr (analysis_prompt (query s))")
  case (Inl ex)
  then show ?thesis by (simp add: query_analysis_node_def Let_def)
next
  case (Inr content)
  then have u: "unparsable e content" using assms by (simp add: classifier_fails_def)
  have "\<exists>ex. parse_analysis e content = Inl ex"
    using u
    by (auto simp: unparsable_def parse_analysis_def first_line_with_def lines_with_def
        float_of_def Let_def split: list.splits sum.splits option.splits)
  then show ?thesis using Inr by (auto simp: query_analysis_node_def Let_def)
qed

lemma router_low_confidence:
  assumes "doc_count s = 0" "confidence s = Finite 0.5"
  shows "router_node s = s\<lparr>selected_tool := Some ''rag'',
            attempted_tools := attempted_tools s @ [Some ''rag'']\<rparr>"
  using assms by (simp add: router_node_def Let_def float_0_7_def)

lemma score_relevance_absorbed:
  assumes "documents \<noteq> []" "absorbed_failure e (relevance_reply e tr q documents)"
  shows "score_relevance e tr q documents =
         Inr (\<lparr>score = Finite 0.5, relevant = True\<rparr>,
              tr @ [Llm_call (relevance_prompt q (join (nl @ nl) (map page_content (take 3 documents))))])"
  using assms
  by (auto simp: score_relevance_def absorbed_failure_def relevance_reply_def Let_def
      split: sum.splits option.splits)

lemma search_down:
  "similarity_search_with_score env_down tr q = [(doc_a, Finite 0.875)]"
  by (simp add: similarity_search_with_score_def env_down_def default_cfg_def float_0_7_def)

lemma search_empty:
  "similarity_search_with_score env_empty tr q = []"
  by (simp add: similarity_search_with_score_def env_empty_def env_down_def)

lemma router_corpus:
  assumes "doc_count s > 0" "query_intent s \<noteq> Some ''search''"
  shows "router_node s = s\<lparr>selected_tool := Some ''rag'',
            attempted_tools := attempted_tools s @ [Some ''rag'']\<rparr>"
  using assms by (simp add: router_node_def Let_def)

lemma run_from_rag_raises:
  assumes "similarity_search_with_score e (tr @ [Enter Rag]) (query s) \<noteq> []"
    and "\<And>tr' p. llm_invoke e tr' p = Inl ex" and "\<not> caught_by_gate ex"
  shows "run_from e Rag (s, tr) = Inl (ex, attempted_tools s)"
  using assms
  by (simp add: run_from_rag rag_node_def rag_tool_def Let_def run_from_relevance
      relevance_check_node_def score_relevance_def)

lemma graph_down:
  "graph_invoke env_down (initial_state env_down ''hi'')
     = Inl (Exn OtherError ''connection refused'', [Some ''rag''])"
proof -
  let ?s0 = "initial_state env_down ''hi''"
  let ?ex = "Exn OtherError ''connection refused''"
  have down: "\<And>tr p. llm_invoke env_down tr p = Inl ?ex"
    by (simp add: env_down_def)
  have q: "query ?s0 = ''hi''" "doc_count ?s0 = 2" "query_intent ?s0 = None"
    "attempted_tools ?s0 = []"
    by (simp_all add: initial_state_def get_collection_count_def env_down_def)
  have r: "run_from env_down Rag (S, T) = Inl (?ex, attempted_tools S)" for S T
    by (rule run_from_rag_raises) (simp_all add: search_down down caught_by_gate_def)
  have s1: "input_validation_node ?s0 = ?s0"
    by (simp add: input_validation_node_def valid_hi q initial_state_def)
  have "run_from env_down Input_validation (?s0, [])
          = run_from env_down Query_analysis (?s0, [Enter Input_validation])"
    using run_from_valid [of ?s0 env_down "[]"] by (simp add: valid_hi s1 q)
  also have "\<dots> = run_from env_down Router
          (?s0\<lparr>query_intent := Some ''document'', confidence := Finite 0.5\<rparr>,
           [Enter Input_validation, Enter Query_analysis, Llm_call (analysis_prompt ''hi'')])"
    by (simp add: run_from_analysis query_analysis_fail classifier_fails_def down q)
  also have "\<dots> = run_from env_down Rag
          (?s0\<lparr>query_intent := Some ''document'', confidence := Finite 0.5,
                selected_tool := Some ''rag'',
                attempted_tools := attempted_tools ?s0 @ [Some ''rag'']\<rparr>,
           [Enter Input_validation, Enter Query_analysis, Llm_call (analysis_prompt ''hi''),
            Enter Router])"
    by (simp add: run_from_router router_corpus q)
  also have "\<dots> = Inl (?ex, [Some ''rag''])"
    by (simp add: r q)
  finally show ?thesis unfolding graph_invoke_def .
qed

lemma analysis_unclear:
  "query_analysis_node env_unclear (initial_state env_unclear ''hi'', tr)
     = (unclear_state, tr @ [Llm_call (analysis_prompt ''hi'')])"
proof -
  have "parse_analysis env_unclear (''Category: unclear'' @ nl @ ''Confidence: 0.75'')
          = Inr (''unclear'', Finite 0.75)"
    by code_simp
  then show ?thesis
    by (simp add: query_analysis_node_def Let_def unclear_state_def env_unclear_def
        initial_state_def)
qed

lemma router_unclear:
  "selected_tool (router_node unclear_state) = None"
  "attempted_tools (router_node unclear_state) = [None]"
  "next_node Router (router_node unclear_state) = Inl (Exn KeyError ''None'')"
  by (simp_all add: router_node_def unclear_state_def initial_state_def Let_def float_0_7_def
      get_collection_count_def env_unclear_def env_empty_def env_down_def repr_key_def)

lemma graph_unclear:
  "graph_invoke env_unclear (initial_state env_unclear ''hi'')
     = Inl (Exn KeyError ''None'', [None])"
proof -
  let ?s0 = "initial_state env_unclear ''hi''"
  have q: "query ?s0 = ''hi''" by (simp add: initial_state_def)
  have s1: "input_validation_node ?s0 = ?s0"
    by (simp add: input_validation_node_def valid_hi q initial_state_def)
  have "run_from env_unclear Input_validation (?s0, [])
          = run_from env_unclear Query_analysis (?s0, [Enter Input_validation])"
    using run_from_valid [of ?s0 env_unclear "[]"] by (simp add: valid_hi s1 q)
  also have "\<dots> = run_from env_unclear Router
          (unclear_state,
           [Enter Input_validation, Enter Query_analysis, Llm_call (analysis_prompt ''hi'')])"
    by (simp add: run_from_analysis analysis_unclear)
  also have "\<dots> = Inl (Exn KeyError ''None'', [None])"
    by (simp add: run_from_router router_unclear(1,2) repr_key_def)
  finally show ?thesis unfolding graph_invoke_def .
qed

lemma graph_empty:
  "graph_invoke env_empty (initial_state env_empty ''hi'')
     = Inr (\<lparr>query = ''hi'', is_valid = True, validation_reason = [],
              query_intent = Some ''document'', confidence = Finite 0.5,
              selected_tool = Some ''rag'', retrieved_documents = [],
              relevance_score = Finite 0, is_relevant = False, search_results = [],
              response = unverified_note, source_type = [], sources = [],
              is_grounded = False, grounding_confidence = Finite 0,
              attempted_tools = [Some ''rag''], needs_fallback = True,
              processing_time = 0, error = None, doc_count = 0\<rparr>,
            [Enter Input_validation, Enter Query_analysis, Llm_call (analysis_prompt ''hi''),
             Enter Router, Enter Rag, Vector_search ''hi'', Enter Relevance_check, Enter Llm,
             Llm_call (llm_tool_prompt ''hi''), Enter Hallucination_check])"
proof -
  let ?s0 = "\<lparr>query = ''hi'', is_valid = True, validation_reason = [],
              query_intent = None, confidence = Finite 0,
              selected_tool = None, retrieved_documents = [],
              relevance_score = Finite 0, is_relevant = False, search_results = [],
              response = [], source_type = [], sources = [],
              is_grounded = True, grounding_confidence = Finite 1,
              attempted_tools = [], needs_fallback = False,
              processing_time = 0, error = None, doc_count = 0\<rparr>"
  have down: "\<And>tr p. llm_invoke env_empty tr p = Inl (Exn OtherError ''connection refused'')"
    by (simp add: env_empty_def env_down_def)
  have s0: "initial_state env_empty ''hi'' = ?s0"
    by (simp add: initial_state_def get_collection_count_def env_empty_def env_down_def)
  have s1: "input_validation_node ?s0 = ?s0"
    by (simp add: input_validation_node_def valid_hi)
  have "run_from env_empty Input_validation (?s0, [])
          = run_from env_empty Query_analysis (?s0, [Enter Input_validation])"
    using run_from_valid [of ?s0 env_empty "[]"] by (simp add: valid_hi s1)
  also have "\<dots> = run_from env_empty Router
          (?s0\<lparr>query_intent := Some ''document'', confidence := Finite 0.5\<rparr>,
           [Enter Input_validation, Enter Query_analysis, Llm_call (analysis_prompt ''hi'')])"
    by (simp add: run_from_analysis query_analysis_fail classifier_fails_def down)
  also have "\<dots> = run_from env_empty Rag
          (?s0\<lparr>query_intent := Some ''document'', confidence := Finite 0.5,
                selected_tool := Some ''rag'', attempted_tools := [Some ''rag'']\<rparr>,
           [Enter Input_validation, Enter Query_analysis, Llm_call (analysis_prompt ''hi''),
            Enter Router])"
    by (simp add: run_from_router router_low_confidence)
  also have "\<dots> = run_from env_empty Llm
          (?s0\<lparr>query_intent := Some ''document'', confidence := Finite 0.5,
                selected_tool := Some ''rag'', attempted_tools := [Some ''rag''],
                needs_fallback := True\<rparr>,
           [Enter Input_validation, Enter Query_analysis, Llm_call (analysis_prompt ''hi''),
            Enter Router, Enter Rag, Vector_search ''hi'', Enter Relevance_check])"
    by (simp add: run_from_rag rag_node_empty search_empty run_from_relevance
        relevance_check_empty)
  also have "\<dots> = Inr
          (?s0\<lparr>query_intent := Some ''document'', confidence := Finite 0.5,
                selected_tool := Some ''rag'', attempted_tools := [Some ''rag''],
                needs_fallback := True,
                is_grounded := False, grounding_confidence := Finite 0,
                response := unverified_note\<rparr>,
           [Enter Input_validation, Enter Query_analysis, Llm_call (analysis_prompt ''hi''),
            Enter Router, Enter Rag, Vector_search ''hi'', Enter Relevance_check, Enter Llm,
            Llm_call (llm_tool_prompt ''hi''), Enter Hallucination_check])"
    by (simp add: run_from_llm llm_node_fail down run_from_hallucination
        hallucination_check_blank)
  finally show ?thesis
    unfolding graph_invoke_def by (simp add: s0)
qed

lemma router_node_defined:
  assumes "query_intent s \<in> {Some ''document'', Some ''knowledge'', Some ''search''}
           \<or> 0 < doc_count s \<or> \<not> fge (confidence s) (Finite float_0_7)"
  shows "selected_tool (router_node s) \<in> {Some ''rag'', Some ''llm'', Some ''search''}
         \<and> attempted_tools (router_node s) = attempted_tools s @ [selected_tool (router_node s)]"
  using assms by (auto simp: router_node_def Let_def)

section \<open>The claims\<close>

text \<open>
  Claim C1. The router is claimed to follow the three-rule policy for every
  intent label and so always to select a tool. The second rule of the code
  has a branch for each of the three labels and none for any other label.
  The classifier stores whatever label the model prints, so on the reply
  \<^verbatim>\<open>Category: unclear\<close>, \<^verbatim>\<open>Confidence: 0.75\<close> and an empty index the router
  receives \<open>unclear_state\<close> and leaves \<open>selected_tool\<close> at \<open>None\<close>.
\<close>

theorem C1_router_unclear_intent_selects_nothing:
  "query_analysis_node env_unclear (initial_state env_unclear ''hi'', [])
     = (unclear_state, [Llm_call (analysis_prompt ''hi'')])
   \<and> selected_tool (router_node unclear_state) = None"
proof -
  have "parse_analysis env_unclear (''Category: unclear'' @ nl @ ''Confidence: 0.75'')
          = Inr (''unclear'', Finite 0.75)"
    by code_simp
  then have "query_analysis_node env_unclear (initial_state env_unclear ''hi'', [])
     = (unclear_state, [Llm_call (analysis_prompt ''hi'')])"
    by (simp add: query_analysis_node_def Let_def unclear_state_def env_unclear_def
        initial_state_def)
  moreover have "selected_tool (router_node unclear_state) = None"
    by (simp add: router_node_def unclear_state_def initial_state_def Let_def float_0_7_def
        get_collection_count_def env_unclear_def env_empty_def env_down_def)
  ultimately show ?thesis by simp
qed

text \<open>
  Claim C2, as amended. For an answer whose source is \<^verbatim>\<open>'llm'\<close> or \<^verbatim>\<open>'search'\<close>
  the groundedness check returns grounded with confidence 1.0, whatever the
  model and the context are, and the events are those before the check: the
  model is not called.
\<close>

theorem C2_grounding_short_circuit:
  assumes "src = ''llm'' \<or> src = ''search''"
  shows "check_grounding e tr q r ctx src
           = Inr (\<lparr>grounded = True, grounding_conf = Finite 1\<rparr>, tr)"
  using assms by (rule check_grounding_short)

text \<open>The amended claim C2 at a search answer.\<close>

theorem C2_grounding_short_circuit_witness:
  "check_grounding env_down [] ''hi'' ''Hello.'' None ''search''
     = Inr (\<lparr>grounded = True, grounding_conf = Finite 1\<rparr>, [])"
  using C2_grounding_short_circuit [of "''search''" env_down "[]" "''hi''" "''Hello.''" None]
  by simp

text \<open>
  Claim C2 as stated fails: the source \<^verbatim>\<open>'none'\<close> is not \<^verbatim>\<open>'rag'\<close>, the node
  passes no context for it, and the check answers not grounded with
  confidence 0.0.
\<close>

theorem C2_other_source_counterexample:
  "check_grounding env_down [] ''hi'' ''Hello.'' None ''none''
     = Inr (\<lparr>grounded = False, grounding_conf = Finite 0\<rparr>, [])"
  by (simp add: check_grounding_def)

text \<open>
  Claim C3. When the guard rejects the query, the graph returns the state the
  validation node produced (the initial state with the verdict written into
  it), and the only event of the run is the entry into that node: no other
  node runs and no backend is called. \<^verbatim>\<open>invoke\<close> adds the elapsed time and
  nothing else.
\<close>

theorem C3_rejected_query_halts:
  assumes "\<not> valid (validate_query q)"
  shows "graph_invoke e (initial_state e q)
           = Inr ((initial_state e q)\<lparr>is_valid := False,
                    validation_reason := reason (validate_query q)\<rparr>, [Enter Input_validation])
       \<and> invoke e q
           = Inr ((initial_state e q)\<lparr>is_valid := False,
                    validation_reason := reason (validate_query q),
                    processing_time := time_end e - time_start e\<rparr>)"
proof -
  have q: "query (initial_state e q) = q" by (simp add: initial_state_def)
  have g: "graph_invoke e (initial_state e q)
           = Inr (input_validation_node (initial_state e q), [Enter Input_validation])"
    unfolding graph_invoke_def using run_from_invalid [of "initial_state e q" e "[]"] assms q
    by simp
  have v: "input_validation_node (initial_state e q)
            = (initial_state e q)\<lparr>is_valid := False,
                    validation_reason := reason (validate_query q)\<rparr>"
    using assms q by (simp add: input_validation_node_def Let_def)
  show ?thesis using g v by (simp add: invoke_def Let_def)
qed

text \<open>Claim C3 at the query \<^verbatim>\<open>SELECT * FROM users\<close>: rejected for its SQL
  pattern, and the run ends after the validation node.\<close>

theorem C3_rejected_query_halts_witness:
  "graph_invoke env_down (initial_state env_down ''SELECT * FROM users'')
     = Inr ((initial_state env_down ''SELECT * FROM users'')\<lparr>is_valid := False,
              validation_reason := ''Query contains potentially malicious SQL patterns''\<rparr>,
            [Enter Input_validation])
   \<and> invoke env_down ''SELECT * FROM users''
     = Inr ((initial_state env_down ''SELECT * FROM users'')\<lparr>is_valid := False,
              validation_reason := ''Query contains potentially malicious SQL patterns'',
              processing_time := 2\<rparr>)"
  using C3_rejected_query_halts [of "''SELECT * FROM users''" env_down] select_rejected
  by (simp add: sql_rejection_def env_down_def)

text \<open>
  Claim C4. After the router exactly one of the three tools is claimed to be
  selected and recorded. On \<open>unclear_state\<close> (see claim C1) none of the three
  is: the router records \<open>None\<close> as the attempted tool, and the edge that
  leaves the router finds no target for it.
\<close>

theorem C4_router_leaves_tool_unset:
  "selected_tool (router_node unclear_state) \<noteq> Some ''rag''
   \<and> selected_tool (router_node unclear_state) \<noteq> Some ''llm''
   \<and> selected_tool (router_node unclear_state) \<noteq> Some ''search''
   \<and> attempted_tools (router_node unclear_state) = [None]
   \<and> next_node Router (router_node unclear_state) = Inl (Exn KeyError ''None'')"
  by (simp add: router_node_def unclear_state_def initial_state_def Let_def float_0_7_def
      get_collection_count_def env_unclear_def env_empty_def env_down_def repr_key_def)

text \<open>
  Claim C5, as amended. When retrieval returns no passage, the relevance gate
  sets the score to 0, marks the evidence irrelevant and asks for the
  fallback, with no event of its own (no model call); it does so on every
  state without passages, whatever \<open>needs_fallback\<close> was before. The edge then
  leads to the knowledge tool, and the rest of the run is the knowledge node
  followed by the groundedness check. All this holds whether or not the
  knowledge tool succeeds. If its model call succeeds, the run ends with
  \<open>source_type\<close> equal to \<^verbatim>\<open>'llm'\<close>; the events show the whole path from the
  retrieval node.
\<close>

theorem C5_empty_retrieval_falls_back:
  assumes "similarity_search_with_score e (tr @ [Enter Rag]) (query s) = []"
  shows "(\<forall>s' tr'. retrieved_documents s' = [] \<longrightarrow>
            relevance_check_node e (s', tr')
              = Inr (s'\<lparr>is_relevant := False, relevance_score := Finite 0,
                       needs_fallback := True\<rparr>, tr'))
       \<and> relevance_check_node e (rag_node e (s, tr @ [Enter Rag]))
           = Inr (s\<lparr>retrieved_documents := [], sources := [], needs_fallback := True,
                    is_relevant := False, relevance_score := Finite 0\<rparr>,
                  tr @ [Enter Rag, Vector_search (query s)])
       \<and> next_node Relevance_check
            (s\<lparr>retrieved_documents := [], sources := [], needs_fallback := True,
               is_relevant := False, relevance_score := Finite 0\<rparr>)
           = Inr (Some Llm)
       \<and> run_from e Rag (s, tr)
           = run_from e Hallucination_check
               (llm_node e
                 (s\<lparr>retrieved_documents := [], sources := [], needs_fallback := True,
                     is_relevant := False, relevance_score := Finite 0\<rparr>,
                  tr @ [Enter Rag, Vector_search (query s), Enter Relevance_check, Enter Llm]))
       \<and> (\<forall>content.
            llm_invoke e (tr @ [Enter Rag, Vector_search (query s), Enter Relevance_check, Enter Llm])
              (llm_tool_prompt (query s)) = Inr content \<longrightarrow>
            run_from e Rag (s, tr)
              = Inr (s\<lparr>retrieved_documents := [], needs_fallback := True,
                       is_relevant := False, relevance_score := Finite 0,
                       response := content,
                       sources := [Llm_knowledge ''Groq LLM'' ''Response based on model training data''],
                       source_type := ''llm'',
                       is_grounded := True, grounding_confidence := Finite 1\<rparr>,
                     tr @ [Enter Rag, Vector_search (query s), Enter Relevance_check, Enter Llm,
                           Llm_call (llm_tool_prompt (query s)), Enter Hallucination_check]))"
proof (intro conjI allI impI)
  fix s' :: agent_state and tr' :: "event list"
  assume "retrieved_documents s' = []"
  then show "relevance_check_node e (s', tr')
              = Inr (s'\<lparr>is_relevant := False, relevance_score := Finite 0,
                       needs_fallback := True\<rparr>, tr')"
    by (rule relevance_check_empty)
next
  show "relevance_check_node e (rag_node e (s, tr @ [Enter Rag]))
           = Inr (s\<lparr>retrieved_documents := [], sources := [], needs_fallback := True,
                    is_relevant := False, relevance_score := Finite 0\<rparr>,
                  tr @ [Enter Rag, Vector_search (query s)])"
    using assms by (simp add: rag_node_empty relevance_check_empty)
next
  show "next_node Relevance_check
            (s\<lparr>retrieved_documents := [], sources := [], needs_fallback := True,
               is_relevant := False, relevance_score := Finite 0\<rparr>)
           = Inr (Some Llm)"
    by simp
next
  show "run_from e Rag (s, tr)
           = run_from e Hallucination_check
               (llm_node e
                 (s\<lparr>retrieved_documents := [], sources := [], needs_fallback := True,
                     is_relevant := False, relevance_score := Finite 0\<rparr>,
                  tr @ [Enter Rag, Vector_search (query s), Enter Relevance_check, Enter Llm]))"
  proof -
    have eq: "s\<lparr>retrieved_documents := [], sources := [], needs_fallback := True,
                 is_relevant := False, relevance_score := Finite 0\<rparr>
              = s\<lparr>retrieved_documents := [], sources := [], is_relevant := False,
                  relevance_score := Finite 0, needs_fallback := True\<rparr>"
      by simp
    show ?thesis
      unfolding eq using assms
      by (simp add: run_from_rag rag_node_empty run_from_relevance relevance_check_empty
          run_from_llm)
  qed
next
  fix content
  assume "llm_invoke e (tr @ [Enter Rag, Vector_search (query s), Enter Relevance_check, Enter Llm])
              (llm_tool_prompt (query s)) = Inr content"
  then show "run_from e Rag (s, tr)
              = Inr (s\<lparr>retrieved_documents := [], needs_fallback := True,
                       is_relevant := False, relevance_score := Finite 0,
                       response := content,
                       sources := [Llm_knowledge ''Groq LLM'' ''Response based on model training data''],
                       source_type := ''llm'',
                       is_grounded := True, grounding_confidence := Finite 1\<rparr>,
                     tr @ [Enter Rag, Vector_search (query s), Enter Relevance_check, Enter Llm,
                           Llm_call (llm_tool_prompt (query s)), Enter Hallucination_check])"
    using assms
    by (simp add: run_from_rag rag_node_empty run_from_relevance relevance_check_empty
        run_from_llm llm_node_ok run_from_hallucination hallucination_check_llm)
qed

text \<open>
  The amended claim C5 with an empty index. With a model that answers, the
  gate acts on a state whose \<open>needs_fallback\<close> was still off, and the run ends
  with the knowledge tool's answer. With a model that is down, the gate and
  the edge do the same.
\<close>

theorem C5_empty_retrieval_falls_back_witness:
  "\<not> needs_fallback unclear_state
   \<and> relevance_check_node env_unclear (unclear_state, [])
       = Inr (unclear_state\<lparr>is_relevant := False, relevance_score := Finite 0,
                needs_fallback := True\<rparr>, [])
   \<and> next_node Relevance_check
        (unclear_state\<lparr>retrieved_documents := [], sources := [], needs_fallback := True,
           is_relevant := False, relevance_score := Finite 0\<rparr>)
       = Inr (Some Llm)
   \<and> run_from env_unclear Rag (unclear_state, [])
       = Inr (unclear_state\<lparr>retrieved_documents := [], needs_fallback := True,
                is_relevant := False, relevance_score := Finite 0,
                response := ''Category: unclear'' @ nl @ ''Confidence: 0.75'',
                sources := [Llm_knowledge ''Groq LLM'' ''Response based on model training data''],
                source_type := ''llm'',
                is_grounded := True, grounding_confidence := Finite 1\<rparr>,
              [Enter Rag, Vector_search ''hi'', Enter Relevance_check, Enter Llm,
               Llm_call (llm_tool_prompt ''hi''), Enter Hallucination_check])
   \<and> relevance_check_node env_empty (rag_node env_empty (initial_state env_empty ''hi'', [Enter Rag]))
       = Inr ((initial_state env_empty ''hi'')\<lparr>retrieved_documents := [], sources := [],
                needs_fallback := True, is_relevant := False, relevance_score := Finite 0\<rparr>,
              [Enter Rag, Vector_search ''hi''])"
proof -
  have q: "query unclear_state = ''hi''" "retrieved_documents unclear_state = []"
    "\<not> needs_fallback unclear_state"
    by (simp_all add: unclear_state_def initial_state_def)
  have q0: "query (initial_state env_empty ''hi'') = ''hi''"
    by (simp add: initial_state_def)
  have a: "similarity_search_with_score env_unclear ([] @ [Enter Rag]) (query unclear_state) = []"
    by (simp add: similarity_search_with_score_def env_unclear_def env_empty_def env_down_def)
  have a0: "similarity_search_with_score env_empty ([] @ [Enter Rag])
              (query (initial_state env_empty ''hi'')) = []"
    by (simp add: search_empty)
  have b: "llm_invoke env_unclear
             ([] @ [Enter Rag, Vector_search (query unclear_state), Enter Relevance_check, Enter Llm])
             (llm_tool_prompt (query unclear_state))
           = Inr (''Category: unclear'' @ nl @ ''Confidence: 0.75'')"
    by (simp add: env_unclear_def)
  note run = C5_empty_retrieval_falls_back [OF a]
  note down = C5_empty_retrieval_falls_back [OF a0]
  have gate: "relevance_check_node env_unclear (unclear_state, [])
       = Inr (unclear_state\<lparr>is_relevant := False, relevance_score := Finite 0,
                needs_fallback := True\<rparr>, [])"
    using run [THEN conjunct1] q(2) by blast
  have edge: "next_node Relevance_check
        (unclear_state\<lparr>retrieved_documents := [], sources := [], needs_fallback := True,
           is_relevant := False, relevance_score := Finite 0\<rparr>)
       = Inr (Some Llm)"
    using run [THEN conjunct2, THEN conjunct2, THEN conjunct1] by simp
  have last: "run_from env_unclear Rag (unclear_state, [])
       = Inr (unclear_state\<lparr>retrieved_documents := [], needs_fallback := True,
                is_relevant := False, relevance_score := Finite 0,
                response := ''Category: unclear'' @ nl @ ''Confidence: 0.75'',
                sources := [Llm_knowledge ''Groq LLM'' ''Response based on model training data''],
                source_type := ''llm'',
                is_grounded := True, grounding_confidence := Finite 1\<rparr>,
              [Enter Rag, Vector_search ''hi'', Enter Relevance_check, Enter Llm,
               Llm_call (llm_tool_prompt ''hi''), Enter Hallucination_check])"
    using run [THEN conjunct2, THEN conjunct2, THEN conjunct2, THEN conjunct2, rule_format, OF b]
      q(1) by simp
  have gate_down: "relevance_check_node env_empty
         (rag_node env_empty (initial_state env_empty ''hi'', [Enter Rag]))
       = Inr ((initial_state env_empty ''hi'')\<lparr>retrieved_documents := [], sources := [],
                needs_fallback := True, is_relevant := False, relevance_score := Finite 0\<rparr>,
              [Enter Rag, Vector_search ''hi''])"
    using down [THEN conjunct2, THEN conjunct1] q0 by simp
  show ?thesis
    by (intro conjI q(3) gate edge last gate_down)
qed

text \<open>
  Claim C5 as stated fails when the model is unreachable: retrieval returns
  nothing, the gate sends the run to the knowledge tool, the tool fails, and
  the run ends with an empty \<open>source_type\<close>, not \<^verbatim>\<open>'llm'\<close>.
\<close>

theorem C5_knowledge_failure_counterexample:
  "graph_invoke env_empty (initial_state env_empty ''hi'')
     = Inr (\<lparr>query = ''hi'', is_valid = True, validation_reason = [],
              query_intent = Some ''document'', confidence = Finite 0.5,
              selected_tool = Some ''rag'', retrieved_documents = [],
              relevance_score = Finite 0, is_relevant = False, search_results = [],
              response = unverified_note, source_type = [], sources = [],
              is_grounded = False, grounding_confidence = Finite 0,
              attempted_tools = [Some ''rag''], needs_fallback = True,
              processing_time = 0, error = None, doc_count = 0\<rparr>,
            [Enter Input_validation, Enter Query_analysis, Llm_call (analysis_prompt ''hi''),
             Enter Router, Enter Rag, Vector_search ''hi'', Enter Relevance_check, Enter Llm,
             Llm_call (llm_tool_prompt ''hi''), Enter Hallucination_check])"
  by (rule graph_empty)

text \<open>
  Claim C6. \<^verbatim>\<open>invoke\<close> always returns a state, never an exception, and the
  state carries the elapsed time. When the run of the graph ends, the state
  returned is the one the graph ended in, with the elapsed time added. When
  the run raises (a node or an edge lets an exception escape), the state
  returned is the initial one with the description of the exception in
  \<open>error\<close>, the generic answer, the elapsed time, and the tools the router
  had recorded before the failure.
\<close>

theorem C6_invoke_never_raises:
  "(\<exists>s. invoke e q = Inr s \<and> processing_time s = time_end e - time_start e)
   \<and> (\<forall>result tr. graph_invoke e (initial_state e q) = Inr (result, tr) \<longrightarrow>
         invoke e q = Inr (result\<lparr>processing_time := time_end e - time_start e\<rparr>))
   \<and> (\<forall>ex appended. graph_invoke e (initial_state e q) = Inl (ex, appended) \<longrightarrow>
         invoke e q
           = Inr ((initial_state e q)\<lparr>attempted_tools := appended,
                    error := Some (str_exn ex),
                    response := ''An error occurred while processing your query.'',
                    processing_time := time_end e - time_start e\<rparr>))"
proof (cases "graph_invoke e (initial_state e q)")
  case (Inl failure)
  then show ?thesis by (cases failure) (simp add: invoke_def Let_def)
next
  case (Inr st)
  then show ?thesis by (cases st) (simp add: invoke_def Let_def)
qed

text \<open>
  Claim C6 on three runs of the query \<^verbatim>\<open>hi\<close>. The relevance gate lets a
  connection error escape after the router has recorded \<^verbatim>\<open>'rag'\<close>; the router
  selects nothing and its edge raises; and, with an empty index and the model
  down, the run ends normally and its last state is returned.
\<close>

theorem C6_invoke_never_raises_witness:
  "graph_invoke env_down (initial_state env_down ''hi'')
     = Inl (Exn OtherError ''connection refused'', [Some ''rag''])
   \<and> invoke env_down ''hi''
     = Inr ((initial_state env_down ''hi'')\<lparr>attempted_tools := [Some ''rag''],
              error := Some ''connection refused'',
              response := ''An error occurred while processing your query.'',
              processing_time := 2\<rparr>)
   \<and> graph_invoke env_unclear (initial_state env_unclear ''hi'')
     = Inl (Exn KeyError ''None'', [None])
   \<and> invoke env_unclear ''hi''
     = Inr ((initial_state env_unclear ''hi'')\<lparr>attempted_tools := [None],
              error := Some ''None'',
              response := ''An error occurred while processing your query.'',
              processing_time := 2\<rparr>)
   \<and> invoke env_empty ''hi''
     = Inr \<lparr>query = ''hi'', is_valid = True, validation_reason = [],
              query_intent = Some ''document'', confidence = Finite 0.5,
              selected_tool = Some ''rag'', retrieved_documents = [],
              relevance_score = Finite 0, is_relevant = False, search_results = [],
              response = unverified_note, source_type = [], sources = [],
              is_grounded = False, grounding_confidence = Finite 0,
              attempted_tools = [Some ''rag''], needs_fallback = True,
              processing_time = 2, error = None, doc_count = 0\<rparr>"
proof -
  have t: "time_end env_down - time_start env_down = 2"
    "time_end env_unclear - time_start env_unclear = 2"
    "time_end env_empty - time_start env_empty = 2"
    by (simp_all add: env_unclear_def env_empty_def env_down_def)
  show ?thesis
    using C6_invoke_never_raises [of env_down "''hi''"]
      C6_invoke_never_raises [of env_unclear "''hi''"]
      C6_invoke_never_raises [of env_empty "''hi''"]
      graph_down graph_unclear graph_empty t
    by simp
qed

text \<open>
  Claim C7, as amended. With evidence present, when the model call of the
  relevance gate raises \<^verbatim>\<open>ValueError\<close> or \<^verbatim>\<open>AttributeError\<close>, or its reply is not
  a number, the gate returns score 0.5 and relevant, whatever the threshold
  is; the node stores both, leaves \<open>needs_fallback\<close> as it was, and the edge
  leads to response synthesis.
\<close>

theorem C7_absorbed_failure_defaults:
  assumes "retrieved_documents s \<noteq> []"
    and "absorbed_failure e (relevance_reply e tr (query s) (retrieved_documents s))"
  shows "score_relevance e tr (query s) (retrieved_documents s)
           = Inr (\<lparr>score = Finite 0.5, relevant = True\<rparr>,
                  tr @ [Llm_call (relevance_prompt (query s)
                          (join (nl @ nl) (map page_content (take 3 (retrieved_documents s)))))])
       \<and> relevance_check_node e (s, tr)
           = Inr (s\<lparr>is_relevant := True, relevance_score := Finite 0.5\<rparr>,
                  tr @ [Llm_call (relevance_prompt (query s)
                          (join (nl @ nl) (map page_content (take 3 (retrieved_documents s)))))])
       \<and> next_node Relevance_check (s\<lparr>is_relevant := True, relevance_score := Finite 0.5\<rparr>)
           = Inr (Some Response_synthesis)"
  using assms score_relevance_absorbed [OF assms]
  by (simp add: relevance_check_node_def Let_def)

text \<open>The amended claim C7 with one passage and a reply that is not a number.\<close>

theorem C7_absorbed_failure_defaults_witness:
  "absorbed_failure env_chatty (relevance_reply env_chatty [] ''hi'' [doc_a])
   \<and> relevance_check_node env_chatty (retrieved_state, [])
       = Inr (retrieved_state\<lparr>is_relevant := True, relevance_score := Finite 0.5\<rparr>,
              [Llm_call (relevance_prompt ''hi'' ''Paris is the capital of France.'')])
   \<and> next_node Relevance_check (retrieved_state\<lparr>is_relevant := True, relevance_score := Finite 0.5\<rparr>)
       = Inr (Some Response_synthesis)"
proof -
  have q: "query retrieved_state = ''hi''" "retrieved_documents retrieved_state = [doc_a]"
    by (simp_all add: retrieved_state_def initial_state_def)
  have a: "absorbed_failure env_chatty (relevance_reply env_chatty [] ''hi'' [doc_a])"
    by (simp add: absorbed_failure_def relevance_reply_def env_chatty_def env_down_def)
  show ?thesis
    using a C7_absorbed_failure_defaults [of retrieved_state env_chatty "[]"] q
    by (simp add: doc_a_def)
qed

text \<open>
  Claim C7 as stated fails when the model call raises an exception of another
  class, such as a connection error: the gate has evidence, returns no score
  and raises that exception itself.
\<close>

theorem C7_other_exception_counterexample:
  "score_relevance env_down [] ''hi'' [doc_a] = Inl (Exn OtherError ''connection refused'')"
  by (simp add: score_relevance_def env_down_def caught_by_gate_def)

text \<open>
  Claim C8. When the model call of the intent classifier raises, or its reply
  has no line with \<^verbatim>\<open>Category:\<close>, no line with \<^verbatim>\<open>Confidence:\<close>, or a confidence
  that is not a number, the node returns the state with intent \<^verbatim>\<open>document\<close>
  and confidence 0.5, and nothing else changed.
\<close>

theorem C8_classifier_default:
  assumes "classifier_fails e (llm_invoke e tr (analysis_prompt (query s)))"
  shows "query_analysis_node e (s, tr) =
         (s\<lparr>query_intent := Some ''document'', confidence := Finite 0.5\<rparr>,
          tr @ [Llm_call (analysis_prompt (query s))])"
  using assms by (rule query_analysis_fail)

text \<open>Claim C8 on a reply without a category line.\<close>

theorem C8_classifier_default_witness:
  "classifier_fails env_chatty (Inr ''It depends.'')
   \<and> query_analysis_node env_chatty (initial_state env_chatty ''hi'', [])
     = ((initial_state env_chatty ''hi'')\<lparr>query_intent := Some ''document'', confidence := Finite 0.5\<rparr>,
        [Llm_call (analysis_prompt ''hi'')])"
proof -
  have "lines_with ''Category:'' ''It depends.'' = []" by code_simp
  then have a: "classifier_fails env_chatty (Inr ''It depends.'')"
    by (simp add: classifier_fails_def unparsable_def)
  have b: "llm_invoke env_chatty [] (analysis_prompt (query (initial_state env_chatty ''hi'')))
            = Inr ''It depends.''"
    by (simp add: env_chatty_def env_down_def)
  show ?thesis
    using a b C8_classifier_default [of env_chatty "[]" "initial_state env_chatty ''hi''"]
    by (simp add: initial_state_def)
qed



text \<open>
  Claim C10. A query within the length limit is rejected with the SQL-pattern
  reason as soon as it contains one of the nine keywords as a word of its own,
  in any case (\<open>w\<close> is the occurrence, between \<open>pre\<close> and \<open>post\<close>, with no word
  character next to it), or one of the six punctuation tokens anywhere. Such a
  query is never empty, so nothing more is asked of it. One keyword is enough:
  the witness is the request \<^verbatim>\<open>create a summary\<close>.
\<close>

theorem C10_sql_pattern_rejected:
  assumes "length q \<le> MAX_QUERY_LENGTH"
    and "(k \<in> set SQL_KEYWORDS \<and> q = pre @ w @ post \<and> lower w = lower k
          \<and> (pre = [] \<or> \<not> is_word_char (last pre)) \<and> (post = [] \<or> \<not> is_word_char (hd post)))
       \<or> (t \<in> set SQL_TOKENS \<and> q = pre' @ t @ post')"
  shows "validate_query q = sql_rejection"
  using assms keyword_rejected token_rejected by blast

theorem C10_sql_pattern_rejected_witness:
  "validate_query ''create a summary'' = sql_rejection"
proof -
  have h: "lower ''create'' = lower ''CREATE''" by code_simp
  show ?thesis
    using h C10_sql_pattern_rejected
      [of "''create a summary''" "''CREATE''" "[]" "''create''" "'' a summary''"]
    by (simp add: MAX_QUERY_LENGTH_def SQL_KEYWORDS_def is_word_char_def ord_def)
qed

end
